theory Spec2Isabelle
  imports Complex_Main "HOL-Library.AList"
begin

section \<open>Numbers and clock values shared by the components\<close>


definition round_half_even :: "rat \<Rightarrow> int" where
  "round_half_even x =
     (let f = \<lfloor>x\<rfloor>; d = x - of_int f
      in if d < 1 / 2 then f
         else if 1 / 2 < d then f + 1
         else if even f then f else f + 1)"

definition py_round :: "rat \<Rightarrow> nat \<Rightarrow> rat" where
  \<comment> \<open>\<open>round(x, n)\<close>: nearest multiple of \<open>10^-n\<close>, ties to the even one.\<close>
  "py_round x n = of_int (round_half_even (x * 10 ^ n)) / 10 ^ n"

record datetime =
  dt_year :: nat
  dt_month :: nat
  dt_day :: nat
  dt_hour :: nat
  dt_minute :: nat
  dt_second :: nat
  dt_microsecond :: nat

fun lex_less :: "nat list \<Rightarrow> nat list \<Rightarrow> bool" where
  "lex_less (x # xs) (y # ys) = (x < y \<or> (x = y \<and> lex_less xs ys))"
| "lex_less _ _ = False"

definition dt_fields :: "datetime \<Rightarrow> nat list" where
  "dt_fields d =
     [dt_year d, dt_month d, dt_day d, dt_hour d, dt_minute d, dt_second d, dt_microsecond d]"

definition dt_less :: "datetime \<Rightarrow> datetime \<Rightarrow> bool" where
  \<comment> \<open>\<open>a < b\<close> for two datetimes of the one zone KST, which has no clock changes.\<close>
  "dt_less a b = lex_less (dt_fields a) (dt_fields b)"

definition dt_ge :: "datetime \<Rightarrow> datetime \<Rightarrow> bool" where
  "dt_ge a b = (\<not> dt_less a b)"

definition is_leap :: "nat \<Rightarrow> bool" where
  "is_leap y = (y mod 4 = 0 \<and> (y mod 100 \<noteq> 0 \<or> y mod 400 = 0))"

definition days_in_month :: "nat \<Rightarrow> nat \<Rightarrow> nat" where
  "days_in_month y m =
     (if m = 2 then (if is_leap y then 29 else 28)
      else if m = 4 \<or> m = 6 \<or> m = 9 \<or> m = 11 then 30 else 31)"

definition add_day :: "datetime \<Rightarrow> datetime" where
  \<comment> \<open>\<open>d + timedelta(days=1)\<close>: the same wall-clock time on the next calendar day.\<close>
  "add_day d =
     (if dt_day d < days_in_month (dt_year d) (dt_month d) then d\<lparr>dt_day := dt_day d + 1\<rparr>
      else if dt_month d < 12 then d\<lparr>dt_month := dt_month d + 1, dt_day := 1\<rparr>
      else d\<lparr>dt_year := dt_year d + 1, dt_month := 1, dt_day := 1\<rparr>)"

fun add_days :: "nat \<Rightarrow> datetime \<Rightarrow> datetime" where
  "add_days 0 d = d"
| "add_days (Suc n) d = add_days n (add_day d)"

section \<open>Daily kill switch (risk/daily\_kill\_switch.py)\<close>

text \<open>
  The text of \<open>_kill_reason\<close> is an f-string over three numbers; the model keeps the
  three numbers. \<open>asyncio.ensure_future\<close> only schedules \<open>_emergency_shutdown\<close>: the
  coroutine body runs when the event loop next gets control, so the model counts the
  scheduled tasks in \<open>pending_shutdowns\<close> and runs one with \<open>run_pending_shutdown\<close>.
\<close>

datatype shutdown_effect = CancelAll | Notify

record kill_reason_data =
  kr_loss_pct :: rat
  kr_limit_pct :: rat
  kr_lost_krw :: int

record DailyKillSwitch =
  daily_loss_limit_pct :: rat
  starting_capital :: int
  has_on_cancel_all :: bool
  has_on_notify :: bool
  is_killed :: bool
  kill_date :: "(nat \<times> nat \<times> nat) option"
  kill_reason :: "kill_reason_data option"
  kill_timestamp :: "datetime option"
  pending_shutdowns :: nat
  effects :: "shutdown_effect list"

definition DailyKillSwitch_init :: "rat \<Rightarrow> int \<Rightarrow> bool \<Rightarrow> bool \<Rightarrow> DailyKillSwitch" where
  "DailyKillSwitch_init limit start cancel notify =
     \<lparr>daily_loss_limit_pct = limit, starting_capital = start,
      has_on_cancel_all = cancel, has_on_notify = notify,
      is_killed = False, kill_date = None, kill_reason = None, kill_timestamp = None,
      pending_shutdowns = 0, effects = []\<rparr>"

definition check :: "DailyKillSwitch \<Rightarrow> int \<Rightarrow> bool \<times> DailyKillSwitch" where
  "check ks current_capital =
     (if is_killed ks then (False, ks)
      else if starting_capital ks \<le> 0 then (True, ks)
      else
        let daily_pnl = current_capital - starting_capital ks;
            daily_pnl_pct = (of_int daily_pnl :: rat) / of_int (starting_capital ks)
        in if daily_pnl_pct \<le> - daily_loss_limit_pct ks
           then (False,
                 ks\<lparr>kill_reason :=
                       Some \<lparr>kr_loss_pct = \<bar>daily_pnl_pct\<bar> * 100,
                             kr_limit_pct = daily_loss_limit_pct ks * 100,
                             kr_lost_krw = \<bar>daily_pnl\<bar>\<rparr>,
                    pending_shutdowns := Suc (pending_shutdowns ks)\<rparr>)
           else (True, ks))"

definition emergency_shutdown :: "datetime \<Rightarrow> DailyKillSwitch \<Rightarrow> DailyKillSwitch" where
  "emergency_shutdown now ks =
     ks\<lparr>is_killed := True,
        kill_date := Some (dt_year now, dt_month now, dt_day now),
        kill_timestamp := Some now,
        effects := effects ks @ (if has_on_cancel_all ks then [CancelAll] else [])
                              @ (if has_on_notify ks then [Notify] else [])\<rparr>"

definition run_pending_shutdown :: "datetime \<Rightarrow> DailyKillSwitch \<Rightarrow> DailyKillSwitch" where
  \<comment> \<open>The event loop starts one scheduled shutdown task, if there is one.\<close>
  "run_pending_shutdown now ks =
     (if pending_shutdowns ks = 0 then ks
      else emergency_shutdown now (ks\<lparr>pending_shutdowns := pending_shutdowns ks - 1\<rparr>))"

definition reset_daily :: "DailyKillSwitch \<Rightarrow> int \<Rightarrow> DailyKillSwitch" where
  "reset_daily ks new_starting_capital =
     ks\<lparr>is_killed := False, kill_date := None, kill_reason := None,
        kill_timestamp := None, starting_capital := new_starting_capital\<rparr>"

definition set_starting_capital :: "DailyKillSwitch \<Rightarrow> int \<Rightarrow> DailyKillSwitch" where
  "set_starting_capital ks capital = ks\<lparr>starting_capital := capital\<rparr>"

section \<open>Order state machine (order/order\_state\_machine.py)\<close>

text \<open>
  An order is the dictionary \<open>create_order\<close> builds. Its keys \<open>order_id\<close>, \<open>state\<close>,
  \<open>created_at\<close> and \<open>history\<close> are fields of the record; every other key, \<open>updated_at\<close>
  included, lives in \<open>other_fields\<close>, an association list in the dictionary's insertion order.
  \<open>order_data\<close> is taken to carry none of the four keys of the record, as at its call site
  in order\_manager.py. The \<open>state\<close> entry of a history record is the name of the state.
  Registered callbacks and the completion notice only observe the order and are left out.
\<close>

datatype OrderState =
  CREATED | SUBMITTED | PARTIAL_FILLED | FILLED | CANCEL_REQUESTED
  | CANCELLED | AMEND_REQUESTED | REJECTED | EXPIRED | ERROR

datatype pyval = PNone | PBool bool | PInt int | PFloat rat | PStr string

type_synonym pydict = "(string \<times> pyval) list"



definition COMPLETED_STATES :: "OrderState set" where
  "COMPLETED_STATES = {FILLED, CANCELLED, EXPIRED}"






definition dict_set :: "'k \<Rightarrow> 'v \<Rightarrow> ('k \<times> 'v) list \<Rightarrow> ('k \<times> 'v) list" where
  \<comment> \<open>\<open>d[k] = v\<close>: an existing key keeps its place, a new key goes to the end.\<close>
  "dict_set k v d = AList.update k v d"

definition dict_del :: "'k \<Rightarrow> ('k \<times> 'v) list \<Rightarrow> ('k \<times> 'v) list" where
  "dict_del k d = AList.delete k d"














section \<open>Global position lock (risk/global\_position\_lock.py)\<close>

text \<open>
  Both dictionaries of the lock are association lists in insertion order with
  \<open>dict_set\<close> and \<open>dict_del\<close>. A grade is the string the caller passes; the members of
  \<open>StockGrade\<close> are strings equal to their values, so \<open>GRADE_HARD_CAP\<close> has four keys.
  The messages are f-strings; the model keeps the numbers they print.
\<close>

record StockReservation =
  sr_stock_code :: string
  sr_grade :: string
  sr_reservations :: "(string \<times> rat) list"

definition total_pct :: "StockReservation \<Rightarrow> rat" where
  "total_pct r = sum_list (map snd (sr_reservations r))"

definition GRADE_HARD_CAP :: "(string \<times> rat) list" where
  "GRADE_HARD_CAP = [(''A'', 30), (''B'', 20), (''C'', 10), (''D'', 0)]"

record GlobalPositionLock =
  grade_caps :: "(string \<times> rat) list"
  lock_reservations :: "(string \<times> StockReservation) list"

definition GlobalPositionLock_init :: "(string \<times> rat) list option \<Rightarrow> GlobalPositionLock" where
  \<comment> \<open>\<open>grade_caps or GRADE_HARD_CAP\<close>: an empty dictionary is falsy\<close>
  "GlobalPositionLock_init caps =
     \<lparr>grade_caps = (case caps of None \<Rightarrow> GRADE_HARD_CAP | Some [] \<Rightarrow> GRADE_HARD_CAP | Some c \<Rightarrow> c),
      lock_reservations = []\<rparr>"

definition get_cap :: "GlobalPositionLock \<Rightarrow> string \<Rightarrow> rat" where
  "get_cap lk g = (case map_of (grade_caps lk) g of Some c \<Rightarrow> c | None \<Rightarrow> 0)"

datatype lock_msg =
  LockDenied string string rat rat rat rat rat
  | LockReserved rat string string rat
  | NoReservationFound string
  | NoReservationBy string string
  | LockReleased rat string string rat

definition check_and_reserve ::
  "GlobalPositionLock \<Rightarrow> string \<Rightarrow> string \<Rightarrow> rat \<Rightarrow> string
     \<Rightarrow> (bool \<times> lock_msg) \<times> GlobalPositionLock" where
  "check_and_reserve lk stock g additional_pct strategy =
     (let cap = get_cap lk g;
          reservation = map_of (lock_reservations lk) stock;
          current_total = (case reservation of Some r \<Rightarrow> total_pct r | None \<Rightarrow> 0);
          projected = current_total + additional_pct
      in if cap < projected
         then ((False, LockDenied stock g projected cap current_total additional_pct
                         (max 0 (cap - current_total))), lk)
         else
           let r = (case reservation of
                      None \<Rightarrow> \<lparr>sr_stock_code = stock, sr_grade = g, sr_reservations = []\<rparr>
                    | Some r0 \<Rightarrow> r0);
               prev = (case map_of (sr_reservations r) strategy of Some p \<Rightarrow> p | None \<Rightarrow> 0);
               r' = r\<lparr>sr_reservations :=
                        dict_set strategy (prev + additional_pct) (sr_reservations r)\<rparr>
           in ((True, LockReserved additional_pct stock strategy (total_pct r')),
               lk\<lparr>lock_reservations := dict_set stock r' (lock_reservations lk)\<rparr>))"

definition release ::
  "GlobalPositionLock \<Rightarrow> string \<Rightarrow> string \<Rightarrow> (bool \<times> lock_msg) \<times> GlobalPositionLock" where
  "release lk stock strategy =
     (case map_of (lock_reservations lk) stock of
        None \<Rightarrow> ((False, NoReservationFound stock), lk)
      | Some r \<Rightarrow>
          let released_pct = (case map_of (sr_reservations r) strategy of
                                Some p \<Rightarrow> p | None \<Rightarrow> 0);
              r' = r\<lparr>sr_reservations := dict_del strategy (sr_reservations r)\<rparr>
          in if released_pct = 0
             then ((False, NoReservationBy stock strategy),
                   lk\<lparr>lock_reservations := dict_set stock r' (lock_reservations lk)\<rparr>)
             else if sr_reservations r' = []
             then ((True, LockReleased released_pct stock strategy 0),
                   lk\<lparr>lock_reservations := dict_del stock (lock_reservations lk)\<rparr>)
             else ((True, LockReleased released_pct stock strategy (total_pct r')),
                   lk\<lparr>lock_reservations := dict_set stock r' (lock_reservations lk)\<rparr>))"

definition clear_all :: "GlobalPositionLock \<Rightarrow> GlobalPositionLock" where
  "clear_all lk = lk\<lparr>lock_reservations := []\<rparr>"

datatype lock_op =
  Reserve string string rat string
  | Release string string

fun lock_step :: "GlobalPositionLock \<Rightarrow> lock_op \<Rightarrow> GlobalPositionLock" where
  "lock_step lk (Reserve stock g additional_pct strategy) =
     snd (check_and_reserve lk stock g additional_pct strategy)"
| "lock_step lk (Release stock strategy) = snd (release lk stock strategy)"

definition lock_run :: "lock_op list \<Rightarrow> GlobalPositionLock" where
  "lock_run ops = foldl lock_step (GlobalPositionLock_init None) ops"




section \<open>Paper trading engine (order/paper\_trading.py)\<close>
















section \<open>Margin guard (risk/margin\_guard.py)\<close>






datatype balance_query = NoBalanceFn | QueryFails | QueryReturns int

record MarginGuard =
  cached_balance :: int
  cache_timestamp :: rat
  pending_reservations :: "((string \<times> int) \<times> int) list"






definition release_reservation_by_key :: "MarginGuard \<Rightarrow> string \<times> int \<Rightarrow> MarginGuard" where
  "release_reservation_by_key mg reservation_key =
     mg\<lparr>pending_reservations := dict_del reservation_key (pending_reservations mg)\<rparr>"

definition clear_all_reservations :: "MarginGuard \<Rightarrow> MarginGuard" where
  "clear_all_reservations mg = mg\<lparr>pending_reservations := []\<rparr>"

section \<open>Position sizer (risk/position\_sizer.py)\<close>

















section \<open>Drawdown protocol (risk/drawdown\_protocol.py)\<close>

text \<open>
  \<open>datetime.now(tz=KST)\<close> is an input of \<open>evaluate_and_respond\<close>. A halt reason is an
  f-string over one loss figure; the model keeps the level and the figure.
\<close>

datatype DrawdownLevel = NONE | GREEN | YELLOW | ORANGE | RED | BLACK

definition DAILY_GREEN_THRESHOLD :: rat where
  "DAILY_GREEN_THRESHOLD = 2 / 100"

definition DAILY_YELLOW_LOW :: rat where
  "DAILY_YELLOW_LOW = 3 / 100"

definition MONTHLY_ORANGE_THRESHOLD :: rat where
  "MONTHLY_ORANGE_THRESHOLD = 6 / 100"

definition CUMULATIVE_RED_THRESHOLD :: rat where
  "CUMULATIVE_RED_THRESHOLD = 10 / 100"

definition CUMULATIVE_BLACK_THRESHOLD :: rat where
  "CUMULATIVE_BLACK_THRESHOLD = 15 / 100"

definition RED_RECOVERY_PAPER_WINS :: int where
  "RED_RECOVERY_PAPER_WINS = 5"

definition RED_HALT_DAYS :: nat where
  "RED_HALT_DAYS = 7"

datatype halt_text = NoHaltReason | HaltReason DrawdownLevel rat

record DrawdownState =
  level :: DrawdownLevel
  position_scale :: rat
  trading_halted :: bool
  halt_reason :: halt_text
  halt_until :: "datetime option"
  paper_mode_forced :: bool
  consecutive_paper_wins :: int
  strategy_review_required :: bool
  last_evaluated :: "datetime option"

definition DrawdownState_init :: DrawdownState where
  "DrawdownState_init =
     \<lparr>level = NONE, position_scale = 1, trading_halted = False, halt_reason = NoHaltReason,
      halt_until = None, paper_mode_forced = False, consecutive_paper_wins = 0,
      strategy_review_required = False, last_evaluated = None\<rparr>"

record drawdown_response =
  resp_level :: DrawdownLevel
  resp_position_scale :: rat
  resp_trading_halted :: bool
  resp_halt_reason :: halt_text
  resp_halt_until :: "datetime option"
  resp_paper_mode_forced :: bool
  resp_strategy_review_required :: bool
  resp_consecutive_paper_wins :: int
  resp_daily_pnl_pct :: rat
  resp_monthly_pnl_pct :: rat
  resp_cumulative_pnl_pct :: rat

definition classify :: "rat \<Rightarrow> rat \<Rightarrow> rat \<Rightarrow> DrawdownLevel" where
  "classify daily monthly cumulative =
     (if cumulative \<le> - CUMULATIVE_BLACK_THRESHOLD then BLACK
      else if cumulative \<le> - CUMULATIVE_RED_THRESHOLD then RED
      else if monthly \<le> - MONTHLY_ORANGE_THRESHOLD then ORANGE
      else if daily \<le> - DAILY_YELLOW_LOW then YELLOW
      else if daily \<le> - DAILY_GREEN_THRESHOLD then GREEN
      else NONE)"

fun severity :: "DrawdownLevel \<Rightarrow> nat" where
  "severity NONE = 0"
| "severity GREEN = 1"
| "severity YELLOW = 2"
| "severity ORANGE = 3"
| "severity RED = 4"
| "severity BLACK = 5"

definition end_of_day :: "datetime \<Rightarrow> datetime" where
  \<comment> \<open>\<open>now.replace(hour=16, minute=30, second=0, microsecond=0)\<close>\<close>
  "end_of_day now = now\<lparr>dt_hour := 16, dt_minute := 30, dt_second := 0, dt_microsecond := 0\<rparr>"

definition escalate ::
  "DrawdownState \<Rightarrow> DrawdownLevel \<Rightarrow> rat \<Rightarrow> rat \<Rightarrow> rat \<Rightarrow> datetime \<Rightarrow> DrawdownState" where
  "escalate st lv daily monthly cumulative now =
     (let st1 = st\<lparr>level := lv\<rparr>
      in case lv of
           NONE \<Rightarrow> st1
         | GREEN \<Rightarrow>
             st1\<lparr>position_scale := 1 / 2, trading_halted := False,
                 halt_reason := HaltReason GREEN (\<bar>daily\<bar> * 100)\<rparr>
         | YELLOW \<Rightarrow>
             (let eod = end_of_day now;
                  eod' = (if dt_ge now eod then add_day eod else eod)
              in st1\<lparr>position_scale := 0, trading_halted := True,
                     halt_reason := HaltReason YELLOW (\<bar>daily\<bar> * 100),
                     halt_until := Some eod'\<rparr>)
         | ORANGE \<Rightarrow>
             (let next_month =
                    (if dt_month now = 12
                     then now\<lparr>dt_year := dt_year now + 1, dt_month := 1, dt_day := 1,
                              dt_hour := 9, dt_minute := 0, dt_second := 0,
                              dt_microsecond := 0\<rparr>
                     else now\<lparr>dt_month := dt_month now + 1, dt_day := 1,
                              dt_hour := 9, dt_minute := 0, dt_second := 0,
                              dt_microsecond := 0\<rparr>)
              in st1\<lparr>position_scale := 0, trading_halted := True,
                     halt_reason := HaltReason ORANGE (\<bar>monthly\<bar> * 100),
                     halt_until := Some next_month\<rparr>)
         | RED \<Rightarrow>
             st1\<lparr>position_scale := 0, trading_halted := True, paper_mode_forced := True,
                 consecutive_paper_wins := 0,
                 halt_until := Some (add_days RED_HALT_DAYS now),
                 halt_reason := HaltReason RED (\<bar>cumulative\<bar> * 100)\<rparr>
         | BLACK \<Rightarrow>
             st1\<lparr>position_scale := 0, trading_halted := True, paper_mode_forced := True,
                 strategy_review_required := True, halt_until := None,
                 halt_reason := HaltReason BLACK (\<bar>cumulative\<bar> * 100)\<rparr>)"

definition build_response :: "DrawdownState \<Rightarrow> rat \<Rightarrow> rat \<Rightarrow> rat \<Rightarrow> drawdown_response" where
  "build_response st daily monthly cumulative =
     \<lparr>resp_level = level st, resp_position_scale = position_scale st,
      resp_trading_halted = trading_halted st, resp_halt_reason = halt_reason st,
      resp_halt_until = halt_until st, resp_paper_mode_forced = paper_mode_forced st,
      resp_strategy_review_required = strategy_review_required st,
      resp_consecutive_paper_wins = consecutive_paper_wins st,
      resp_daily_pnl_pct = py_round daily 6, resp_monthly_pnl_pct = py_round monthly 6,
      resp_cumulative_pnl_pct = py_round cumulative 6\<rparr>"

definition evaluate_and_respond ::
  "DrawdownState \<Rightarrow> rat \<Rightarrow> rat \<Rightarrow> rat \<Rightarrow> datetime \<Rightarrow> drawdown_response \<times> DrawdownState" where
  "evaluate_and_respond st daily monthly cumulative now =
     (let st1 = st\<lparr>last_evaluated := Some now\<rparr>
      in if (case halt_until st1 of None \<Rightarrow> False | Some until \<Rightarrow> dt_less now until)
         then (build_response st1 daily monthly cumulative, st1)
         else
           let new_level = classify daily monthly cumulative;
               st2 = (if severity (level st1) < severity new_level
                      then escalate st1 new_level daily monthly cumulative now
                      else st1)
           in (build_response st2 daily monthly cumulative, st2))"

definition reset_to_none :: "DrawdownState \<Rightarrow> DrawdownState" where
  "reset_to_none st =
     st\<lparr>level := NONE, position_scale := 1, trading_halted := False,
        halt_reason := NoHaltReason, halt_until := None, paper_mode_forced := False,
        consecutive_paper_wins := 0, strategy_review_required := False\<rparr>"

definition drawdown_reset_daily :: "DrawdownState \<Rightarrow> DrawdownState" where
  "drawdown_reset_daily st = (if level st = GREEN \<or> level st = YELLOW then reset_to_none st else st)"

section \<open>Pyramid manager (order/pyramid\_manager.py)\<close>

text \<open>
  A position carries the keys the manager reads, with the values \<open>float\<close> and \<open>int\<close> make
  of them. Tuples are indexed as Python does: a negative index counts from the end and an
  index out of range raises IndexError.
\<close>

record PyramidConfig =
  max_stages :: int
  stage_ratios :: "rat list"
  profit_trigger_pct :: "rat list"




record stage_record =
  st_stage :: int
  st_fill_price :: rat
  st_fill_quantity :: int
  st_timestamp :: rat
  st_metadata :: "pydict option"

record pyramid_state =
  current_stage :: int
  stages_executed :: "stage_record list"

record PyramidManager =
  config :: PyramidConfig
  pyramid_states :: "(string \<times> pyramid_state) list"







definition record_stage_execution ::
  "PyramidManager \<Rightarrow> string \<Rightarrow> int \<Rightarrow> rat \<Rightarrow> int \<Rightarrow> pydict option \<Rightarrow> rat
     \<Rightarrow> pyramid_state \<times> PyramidManager" where
  "record_stage_execution pm tid stage price qty metadata now =
     (let st = (case map_of (pyramid_states pm) tid of
                  Some s \<Rightarrow> s
                | None \<Rightarrow> \<lparr>current_stage = 0, stages_executed = []\<rparr>);
          st' = \<lparr>current_stage = stage,
                 stages_executed = stages_executed st @
                   [\<lparr>st_stage = stage, st_fill_price = price, st_fill_quantity = qty,
                     st_timestamp = now, st_metadata = metadata\<rparr>]\<rparr>
      in (st', pm\<lparr>pyramid_states := dict_set tid st' (pyramid_states pm)\<rparr>))"


section \<open>Dictionaries as association lists\<close>

lemma map_of_dict_set: "map_of (dict_set k v d) = (map_of d)(k \<mapsto> v)"
  by (simp add: dict_set_def update_conv')


section \<open>Properties of the daily kill switch\<close>

text \<open>
  C10. A switch that is not killed and whose starting capital is zero or negative
  answers True to every check, whatever the current capital is, and stays as it was:
  no loss can trip it before a positive starting capital is set.
\<close>

theorem check_without_starting_capital:
  assumes "\<not> is_killed ks" and "starting_capital ks \<le> 0"
  shows "check ks current_capital = (True, ks)"
  using assms by (simp add: check_def)

theorem check_without_starting_capital_witness:
  "\<not> is_killed (DailyKillSwitch_init (3 / 100) 0 True True)
   \<and> starting_capital (DailyKillSwitch_init (3 / 100) 0 True True) \<le> 0
   \<and> check (DailyKillSwitch_init (3 / 100) 0 True True) (- 5000000)
       = (True, DailyKillSwitch_init (3 / 100) 0 True True)"
  using check_without_starting_capital
          [of "DailyKillSwitch_init (3 / 100) 0 True True" "- 5000000"]
  by (simp add: DailyKillSwitch_init_def)

lemma check_when_killed: "is_killed ks \<Longrightarrow> check ks current_capital = (False, ks)"
  by (simp add: check_def)

lemma check_true_iff:
  assumes "\<not> is_killed ks" and "0 < starting_capital ks"
  shows "fst (check ks current_capital)
           \<longleftrightarrow> - daily_loss_limit_pct ks
                 < (of_int (current_capital - starting_capital ks) :: rat)
                     / of_int (starting_capital ks)"
  using assms by (auto simp: check_def Let_def)

lemma reset_daily_revives:
  "\<not> is_killed (reset_daily ks capital) \<and> starting_capital (reset_daily ks capital) = capital"
  by (simp add: reset_daily_def)

lemma killed_until_reset:
  "is_killed ks \<Longrightarrow> is_killed (snd (check ks c)) \<and> is_killed (run_pending_shutdown now ks)"
  by (simp add: check_def run_pending_shutdown_def emergency_shutdown_def)

text \<open>
  C8. The switch is meant to latch: the check that observes a breach returns False, the
  switch is killed from then on, and every later check returns False until
  \<open>reset_daily\<close>. In the code the breaching check returns False but only schedules the
  shutdown task that sets the flag. Evaluated on a switch with limit 3 per cent and a
  starting capital of 100,000,000: \<open>check(96000000)\<close> returns False and leaves the switch
  not killed with one task pending; \<open>check(100000000)\<close> made before the task has run
  returns True; once the task has run the same check returns False.
\<close>

theorem check_breach_not_latched:
  "fst (check (DailyKillSwitch_init (3 / 100) 100000000 True True) 96000000) = False
   \<and> \<not> is_killed (snd (check (DailyKillSwitch_init (3 / 100) 100000000 True True) 96000000))
   \<and> pending_shutdowns
        (snd (check (DailyKillSwitch_init (3 / 100) 100000000 True True) 96000000)) = 1
   \<and> fst (check (snd (check (DailyKillSwitch_init (3 / 100) 100000000 True True) 96000000))
              100000000) = True
   \<and> fst (check (run_pending_shutdown
                   \<lparr>dt_year = 2026, dt_month = 3, dt_day = 2, dt_hour = 10, dt_minute = 0,
                    dt_second = 0, dt_microsecond = 0\<rparr>
                   (snd (check (DailyKillSwitch_init (3 / 100) 100000000 True True) 96000000)))
              100000000) = False"
  by (simp add: check_def DailyKillSwitch_init_def Let_def run_pending_shutdown_def
      emergency_shutdown_def)


section \<open>Properties of the order state machine\<close>















section \<open>Properties of the global position lock\<close>



















lemma dict_del_dict_set_fresh:
  "k \<notin> fst ` set al \<Longrightarrow> dict_del k (dict_set k v al) = al"
  by (simp add: dict_del_def dict_set_def delete_update_same)

lemma dict_set_back:
  "map_of al k = Some v \<Longrightarrow> dict_set k v (dict_set k w al) = al"
  by (simp add: dict_set_def update_triv)

text \<open>
  C9, as the code has it. \<open>release\<close> removes the whole reservation of the strategy on
  the stock. When the strategy holds no reservation on the stock before the call, the
  stock's record (if there is one) is not empty and the percentage is not zero, a
  successful \<open>check_and_reserve\<close> followed at once by \<open>release\<close> of the same stock and
  strategy succeeds and returns the lock to exactly the state before the reserve.
\<close>

theorem reserve_then_release_restores:
  assumes nonzero: "additional_pct \<noteq> 0"
    and fresh: "\<forall>r0. map_of (lock_reservations lk) stock = Some r0 \<longrightarrow>
                  sr_reservations r0 \<noteq> [] \<and> strategy \<notin> fst ` set (sr_reservations r0)"
    and reserved: "fst (fst (check_and_reserve lk stock g additional_pct strategy))"
  shows "fst (fst (release (snd (check_and_reserve lk stock g additional_pct strategy))
                     stock strategy))
         \<and> snd (release (snd (check_and_reserve lk stock g additional_pct strategy))
                  stock strategy) = lk"
proof (cases "map_of (lock_reservations lk) stock")
  case None
  then have absent: "stock \<notin> fst ` set (lock_reservations lk)"
    by (simp add: map_of_eq_None_iff)
  from reserved have le: "\<not> get_cap lk g < 0 + additional_pct"
    using None by (auto simp: check_and_reserve_def Let_def split: if_splits)
  have step: "snd (check_and_reserve lk stock g additional_pct strategy)
     = lk\<lparr>lock_reservations :=
            dict_set stock \<lparr>sr_stock_code = stock, sr_grade = g,
                            sr_reservations = [(strategy, additional_pct)]\<rparr>
              (lock_reservations lk)\<rparr>"
    using None le by (simp add: check_and_reserve_def Let_def dict_set_def)
  show ?thesis
    unfolding step using nonzero absent
    by (simp add: release_def map_of_dict_set Let_def dict_del_dict_set_fresh)
       (simp add: dict_del_def)
next
  case (Some r0)
  with fresh have ne: "sr_reservations r0 \<noteq> []"
    and nokey: "strategy \<notin> fst ` set (sr_reservations r0)" by simp_all
  from nokey have look: "map_of (sr_reservations r0) strategy = None"
    by (simp add: map_of_eq_None_iff)
  from reserved have le: "\<not> get_cap lk g < total_pct r0 + additional_pct"
    using Some by (auto simp: check_and_reserve_def Let_def split: if_splits)
  have step: "snd (check_and_reserve lk stock g additional_pct strategy)
     = lk\<lparr>lock_reservations :=
            dict_set stock (r0\<lparr>sr_reservations :=
                                 dict_set strategy additional_pct (sr_reservations r0)\<rparr>)
              (lock_reservations lk)\<rparr>"
    using Some le look by (simp add: check_and_reserve_def Let_def)
  have look': "map_of (dict_set strategy additional_pct (sr_reservations r0)) strategy
                 = Some additional_pct"
    by (simp add: map_of_dict_set)
  have undo: "dict_del strategy (dict_set strategy additional_pct (sr_reservations r0))
                = sr_reservations r0"
    using nokey by (rule dict_del_dict_set_fresh)
  show ?thesis
    unfolding step using nonzero ne Some
    by (simp add: release_def map_of_dict_set Let_def look' undo dict_set_back)
qed

text \<open>
  The claim as stated fails when the strategy already holds a reservation: with 10 per
  cent reserved by S3, reserving 5 more for S3 and releasing S3 leaves no reservation.
\<close>

theorem reserve_then_release_counterexample:
  "fst (fst (check_and_reserve (lock_run [Reserve ''005930'' ''A'' 10 ''S3''])
               ''005930'' ''A'' 5 ''S3''))
   \<and> snd (release (snd (check_and_reserve (lock_run [Reserve ''005930'' ''A'' 10 ''S3''])
                          ''005930'' ''A'' 5 ''S3''))
             ''005930'' ''S3'')
       \<noteq> lock_run [Reserve ''005930'' ''A'' 10 ''S3'']
   \<and> lock_reservations
        (snd (release (snd (check_and_reserve (lock_run [Reserve ''005930'' ''A'' 10 ''S3''])
                          ''005930'' ''A'' 5 ''S3''))
             ''005930'' ''S3'')) = []"
  by (simp add: lock_run_def GlobalPositionLock_init_def check_and_reserve_def release_def
      get_cap_def GRADE_HARD_CAP_def total_pct_def dict_set_def dict_del_def Let_def)

theorem reserve_then_release_restores_witness:
  "(15::rat) \<noteq> 0
   \<and> map_of (lock_reservations (lock_run [Reserve ''005930'' ''A'' 10 ''S1''])) ''005930''
       = Some \<lparr>sr_stock_code = ''005930'', sr_grade = ''A'', sr_reservations = [(''S1'', 10)]\<rparr>
   \<and> fst (fst (check_and_reserve (lock_run [Reserve ''005930'' ''A'' 10 ''S1''])
                  ''005930'' ''A'' 15 ''S3''))
   \<and> fst (fst (release (snd (check_and_reserve (lock_run [Reserve ''005930'' ''A'' 10 ''S1''])
                                ''005930'' ''A'' 15 ''S3''))
                  ''005930'' ''S3''))
   \<and> snd (release (snd (check_and_reserve (lock_run [Reserve ''005930'' ''A'' 10 ''S1''])
                           ''005930'' ''A'' 15 ''S3''))
             ''005930'' ''S3'')
       = lock_run [Reserve ''005930'' ''A'' 10 ''S1'']"
proof -
  let ?lk = "lock_run [Reserve ''005930'' ''A'' 10 ''S1'']"
  have held: "map_of (lock_reservations ?lk) ''005930''
       = Some \<lparr>sr_stock_code = ''005930'', sr_grade = ''A'', sr_reservations = [(''S1'', 10)]\<rparr>"
    by (simp add: lock_run_def GlobalPositionLock_init_def check_and_reserve_def
        get_cap_def GRADE_HARD_CAP_def total_pct_def dict_set_def Let_def)
  have nz: "(15::rat) \<noteq> 0" by simp
  have fresh: "\<forall>r0. map_of (lock_reservations ?lk) ''005930'' = Some r0 \<longrightarrow>
                  sr_reservations r0 \<noteq> [] \<and> ''S3'' \<notin> fst ` set (sr_reservations r0)"
    unfolding held by auto
  have reserved: "fst (fst (check_and_reserve ?lk ''005930'' ''A'' 15 ''S3''))"
    by (simp add: lock_run_def GlobalPositionLock_init_def check_and_reserve_def
        get_cap_def GRADE_HARD_CAP_def total_pct_def dict_set_def Let_def)
  note inst = reserve_then_release_restores [OF nz fresh reserved]
  show ?thesis
    by (intro conjI) (rule nz held reserved inst [THEN conjunct1] inst [THEN conjunct2])+
qed


section \<open>Properties of the paper trading engine\<close>









section \<open>Properties of the margin guard\<close>






section \<open>Properties of the position sizer\<close>










section \<open>Properties of the drawdown protocol\<close>

lemma classify_yellow:
  assumes "daily \<le> - (3 / 100)" and "- (6 / 100) < monthly" and "- (10 / 100) < cumulative"
  shows "classify daily monthly cumulative = YELLOW"
  using assms
  by (simp add: classify_def CUMULATIVE_BLACK_THRESHOLD_def CUMULATIVE_RED_THRESHOLD_def
      MONTHLY_ORANGE_THRESHOLD_def DAILY_YELLOW_LOW_def)

text \<open>
  C6, as the code has it. For a protocol at level NONE with no halt window still open, a
  call of \<open>evaluate_and_respond\<close> with a daily loss of 3 per cent or more, a monthly
  figure above minus 6 per cent and a cumulative figure above minus 10 per cent returns
  level YELLOW with trading halted and position scale 0. The halt lasts until the next
  16:30 local time: 16:30 of the day of the call when the call is made before 16:30, and
  16:30 of the following calendar day when it is made at 16:30 or later.
\<close>

theorem yellow_halts_until_next_1630:
  assumes none: "level st = NONE"
    and no_halt: "(case halt_until st of None \<Rightarrow> True | Some until \<Rightarrow> \<not> dt_less now until)"
    and daily: "daily \<le> - (3 / 100)"
    and monthly: "- (6 / 100) < monthly"
    and cumulative: "- (10 / 100) < cumulative"
  shows "resp_level (fst (evaluate_and_respond st daily monthly cumulative now)) = YELLOW
     \<and> resp_trading_halted (fst (evaluate_and_respond st daily monthly cumulative now))
     \<and> resp_position_scale (fst (evaluate_and_respond st daily monthly cumulative now)) = 0
     \<and> resp_halt_until (fst (evaluate_and_respond st daily monthly cumulative now))
         = Some (if dt_less now (end_of_day now) then end_of_day now
                 else add_day (end_of_day now))"
proof -
  have c: "classify daily monthly cumulative = YELLOW"
    using daily monthly cumulative by (rule classify_yellow)
  have h: "\<not> (case halt_until st of None \<Rightarrow> False | Some until \<Rightarrow> dt_less now until)"
    using no_halt by (cases "halt_until st") simp_all
  show ?thesis
    using none h
    by (simp add: evaluate_and_respond_def Let_def c escalate_def build_response_def dt_ge_def)
qed

text \<open>
  The claim as stated fails for a call after the close: at 17:00 on 2 March 2026 the
  halt runs until 16:30 on 3 March, not until 16:30 of the day of the call.
\<close>

theorem yellow_after_close_counterexample:
  "resp_halt_until (fst (evaluate_and_respond DrawdownState_init
       (- (35 / 1000)) (- (2 / 100)) (- (4 / 100))
       \<lparr>dt_year = 2026, dt_month = 3, dt_day = 2, dt_hour = 17, dt_minute = 0,
        dt_second = 0, dt_microsecond = 0\<rparr>))
     = Some \<lparr>dt_year = 2026, dt_month = 3, dt_day = 3, dt_hour = 16, dt_minute = 30,
             dt_second = 0, dt_microsecond = 0\<rparr>
   \<and> resp_halt_until (fst (evaluate_and_respond DrawdownState_init
       (- (35 / 1000)) (- (2 / 100)) (- (4 / 100))
       \<lparr>dt_year = 2026, dt_month = 3, dt_day = 2, dt_hour = 17, dt_minute = 0,
        dt_second = 0, dt_microsecond = 0\<rparr>))
     \<noteq> Some \<lparr>dt_year = 2026, dt_month = 3, dt_day = 2, dt_hour = 16, dt_minute = 30,
             dt_second = 0, dt_microsecond = 0\<rparr>"
  by code_simp

theorem yellow_halts_until_next_1630_witness:
  "level DrawdownState_init = NONE
   \<and> halt_until DrawdownState_init = None
   \<and> (- (35 / 1000) :: rat) \<le> - (3 / 100) \<and> (- (6 / 100) :: rat) < - (2 / 100)
   \<and> (- (10 / 100) :: rat) < - (4 / 100)
   \<and> resp_level (fst (evaluate_and_respond DrawdownState_init
         (- (35 / 1000)) (- (2 / 100)) (- (4 / 100))
         \<lparr>dt_year = 2026, dt_month = 3, dt_day = 2, dt_hour = 10, dt_minute = 15,
          dt_second = 0, dt_microsecond = 0\<rparr>)) = YELLOW
   \<and> resp_trading_halted (fst (evaluate_and_respond DrawdownState_init
         (- (35 / 1000)) (- (2 / 100)) (- (4 / 100))
         \<lparr>dt_year = 2026, dt_month = 3, dt_day = 2, dt_hour = 10, dt_minute = 15,
          dt_second = 0, dt_microsecond = 0\<rparr>))
   \<and> resp_halt_until (fst (evaluate_and_respond DrawdownState_init
         (- (35 / 1000)) (- (2 / 100)) (- (4 / 100))
         \<lparr>dt_year = 2026, dt_month = 3, dt_day = 2, dt_hour = 10, dt_minute = 15,
          dt_second = 0, dt_microsecond = 0\<rparr>))
       = Some \<lparr>dt_year = 2026, dt_month = 3, dt_day = 2, dt_hour = 16, dt_minute = 30,
               dt_second = 0, dt_microsecond = 0\<rparr>"
proof -
  let ?now = "\<lparr>dt_year = 2026, dt_month = 3, dt_day = 2, dt_hour = 10, dt_minute = 15,
               dt_second = 0, dt_microsecond = 0\<rparr>"
  have none: "level DrawdownState_init = NONE" by (simp add: DrawdownState_init_def)
  have hu: "halt_until DrawdownState_init = None" by (simp add: DrawdownState_init_def)
  have no_halt: "(case halt_until DrawdownState_init of None \<Rightarrow> True
                  | Some until \<Rightarrow> \<not> dt_less ?now until)"
    by (simp add: hu)
  have d: "(- (35 / 1000) :: rat) \<le> - (3 / 100)" and m: "(- (6 / 100) :: rat) < - (2 / 100)"
    and c: "(- (10 / 100) :: rat) < - (4 / 100)" by simp_all
  have before: "dt_less ?now (end_of_day ?now)"
    by (simp add: dt_less_def dt_fields_def end_of_day_def)
  have eod: "end_of_day ?now
      = \<lparr>dt_year = 2026, dt_month = 3, dt_day = 2, dt_hour = 16, dt_minute = 30,
               dt_second = 0, dt_microsecond = 0\<rparr>"
    by (simp add: end_of_day_def)
  note inst = yellow_halts_until_next_1630 [OF none no_halt d m c]
  from inst have r1: "resp_level (fst (evaluate_and_respond DrawdownState_init
         (- (35 / 1000)) (- (2 / 100)) (- (4 / 100)) ?now)) = YELLOW"
    and r2: "resp_trading_halted (fst (evaluate_and_respond DrawdownState_init
         (- (35 / 1000)) (- (2 / 100)) (- (4 / 100)) ?now))"
    by blast+
  from inst have r3: "resp_halt_until (fst (evaluate_and_respond DrawdownState_init
         (- (35 / 1000)) (- (2 / 100)) (- (4 / 100)) ?now))
       = Some \<lparr>dt_year = 2026, dt_month = 3, dt_day = 2, dt_hour = 16, dt_minute = 30,
               dt_second = 0, dt_microsecond = 0\<rparr>"
    unfolding eod [symmetric] using before by simp
  show ?thesis by (intro conjI) (rule none hu d m c r1 r2 r3)+
qed


section \<open>Properties of the pyramid manager\<close>







end
